theory Spec2Isabelle
  imports Main
begin

section \<open>Values, responses and exceptions\<close>

text \<open>
  The handlers of \<^verbatim>\<open>stevedore/api/resources.py\<close> receive the decoded JSON body of a
  request as a Python dict. A float is kept by its literal text: the handlers never
  compute with one.
\<close>

datatype pyval =
    PNone
  | PBool bool
  | PInt int
  | PFloat string
  | PStr string
  | PList "pyval list"
  | PDict "(string \<times> pyval) list"

type_synonym pydict = "string \<rightharpoonup> pyval"

text \<open>\<^verbatim>\<open>d.get(key, default)\<close>\<close>

definition dict_get :: "pydict \<Rightarrow> string \<Rightarrow> pyval \<Rightarrow> pyval" where
  "dict_get d k dflt = (case d k of None \<Rightarrow> dflt | Some v \<Rightarrow> v)"

text \<open>The status lines the handlers assign (\<^verbatim>\<open>falcon.HTTP_200\<close> and so on).\<close>

datatype http_status = HTTP_200 | HTTP_201 | HTTP_404 | HTTP_409 | HTTP_500

text \<open>
  The attributes of falcon's response object that the handlers write. The object is
  passed by reference, so what a handler has written stays written when the handler
  leaves by an exception.
\<close>

record response =
  status :: http_status
  body :: "string option"
  location :: "string option"

text \<open>
  Exceptions: the two the interpreter raises in this code (an unbound local variable, a
  \<^verbatim>\<open>range\<close> bound that is no integer) and whatever a collaborator (database layer,
  queue client) raises, kept by its name.
\<close>

datatype exn =
    UnboundLocalError string
  | TypeError
  | CollaboratorError string

text \<open>A request: its headers and the body stream.\<close>

record request =
  headers :: "(string \<times> string) list"
  stream :: string

section \<open>Configuration, queues and the resource object\<close>

text \<open>
  \<^verbatim>\<open>config.DEFAULT\<close> is a module-level dict, and Python assigns dicts by reference. Dict
  objects therefore live in a heap, and a variable holds an address.
\<close>

type_synonym addr = nat

type_synonym heap = "addr \<Rightarrow> pydict"

text \<open>The address of the dict that the module \<^verbatim>\<open>config\<close> binds to \<^verbatim>\<open>DEFAULT\<close>.\<close>

definition config_DEFAULT :: addr where
  "config_DEFAULT = 0"

text \<open>
  \<^verbatim>\<open>rq.Queue(name=name, connection=redis.StrictRedis(**cfg))\<close>: the call expands the dict
  into keyword arguments, so the queue keeps the values the dict had at that moment.
\<close>

record queue =
  q_name :: string
  connection :: pydict

record resource =
  redis_config :: addr
  q :: queue

text \<open>
  \<^verbatim>\<open>_create_queue(self, name='default', *args, **kwargs)\<close>; of \<^verbatim>\<open>self\<close> it reads only
  \<^verbatim>\<open>self.redis_config\<close>, which is passed here. \<^verbatim>\<open>dict.update\<close> writes through the
  reference.
\<close>

definition create_queue :: "addr \<Rightarrow> string \<Rightarrow> pydict \<Rightarrow> heap \<Rightarrow> queue \<times> heap" where
  "create_queue self_redis_config name kwargs h =
     (let h' = h(self_redis_config := h self_redis_config ++ kwargs);
          q' = \<lparr>q_name = name, connection = h' self_redis_config\<rparr>
      in (q', h'))"

text \<open>\<^verbatim>\<open>TaskResource.__init__\<close>\<close>

definition TaskResource_init :: "heap \<Rightarrow> resource \<times> heap" where
  "TaskResource_init h =
     (let self_redis_config = config_DEFAULT in
      case create_queue self_redis_config ''default'' Map.empty h of
        (q', h') \<Rightarrow> (\<lparr>redis_config = self_redis_config, q = q'\<rparr>, h'))"

section \<open>Collaborators\<close>

text \<open>
  The database layer (\<^verbatim>\<open>utils\<close>, \<^verbatim>\<open>models.Task\<close>), the request utilities
  (\<^verbatim>\<open>api_utils\<close>) and the queue client are called, not defined, by the handlers. The
  handlers are modelled for any behaviour of theirs: a collaborator that touches the
  outside takes the world and returns either an exception or a value, with the world it
  leaves behind.
\<close>

datatype worker = execute_worker

record ('w, 's, 't) env =
  create_db_session :: "'w \<Rightarrow> (exn + 's) \<times> 'w"
  close_db_session :: "'s \<Rightarrow> 'w \<Rightarrow> (exn + unit) \<times> 'w"
  create_unique_task :: "'s \<Rightarrow> pyval \<Rightarrow> pyval \<Rightarrow> 'w \<Rightarrow> (exn + 't \<times> bool) \<times> 'w"
  find_by_id :: "'s \<Rightarrow> string \<Rightarrow> 'w \<Rightarrow> (exn + 't option) \<times> 'w"
  find_all :: "'s \<Rightarrow> 'w \<Rightarrow> (exn + 't list) \<times> 'w"
  serialize :: "'t \<Rightarrow> exn + string"
  serialize_tasks :: "'t list \<Rightarrow> exn + string"
  id_str :: "'t \<Rightarrow> string"
  resp_str :: "response \<Rightarrow> string"
  enqueue :: "queue \<Rightarrow> worker \<Rightarrow> string \<Rightarrow> pyval \<Rightarrow> 'w \<Rightarrow> (exn + unit) \<times> 'w"
  read_stream :: "request \<Rightarrow> string"
  raw_to_dict :: "string \<Rightarrow> pydict"

text \<open>
  Every call of a collaborator that touches the outside is logged with the exception
  it raised, if any.
\<close>

datatype 's call =
    CreateDbSession
  | CloseDbSession 's
  | CreateUniqueTask 's pyval pyval
  | FindById 's string
  | FindAll 's
  | Enqueue string worker string pyval

record ('w, 's) st =
  world :: 'w
  trace :: "('s call \<times> exn option) list"

definition invoke ::
  "'s call \<Rightarrow> ('w \<Rightarrow> (exn + 'a) \<times> 'w) \<Rightarrow> ('w, 's) st \<Rightarrow> (exn + 'a) \<times> ('w, 's) st" where
  "invoke c f s =
     (case f (world s) of
        (r, w) \<Rightarrow>
          (r, \<lparr>world = w,
               trace = trace s @ [(c, case r of Inl e \<Rightarrow> Some e | Inr v \<Rightarrow> None)]\<rparr>))"

text \<open>
  How a handler ends: the exception that left it (\<open>None\<close> when it returned), the
  response object as it then is, and the state.
\<close>

record ('w, 's) outcome =
  raised :: "exn option"
  response :: response
  final :: "('w, 's) st"

definition new_events :: "('w, 's) st \<Rightarrow> ('w, 's) outcome \<Rightarrow> ('s call \<times> exn option) list" where
  "new_events s out = drop (length (trace s)) (trace (final out))"

section \<open>TaskResource\<close>

text \<open>
  Calls of the logger are left out: they write to the log and nothing else. An
  \<^verbatim>\<open>if task_id:\<close> takes the first branch for a non-empty string; the default \<open>None\<close>
  and the empty string take the second.
\<close>

fun truthy_id :: "string option \<Rightarrow> bool" where
  "truthy_id None = False"
| "truthy_id (Some s) = (s \<noteq> [])"

text \<open>
  \<^verbatim>\<open>range(0, times)\<close>: the integers from 0 up to \<open>times - 1\<close>, none when \<open>times \<le> 0\<close>.
  A \<^verbatim>\<open>bool\<close> is an integer in Python; anything else is a \<^verbatim>\<open>TypeError\<close>.
\<close>

definition py_range :: "pyval \<Rightarrow> exn + int list" where
  "py_range times' =
     (case times' of
        PInt n \<Rightarrow> Inr [0..n - 1]
      | PBool b \<Rightarrow> Inr [0..(if b then 1 else 0) - 1]
      | _ \<Rightarrow> Inl TypeError)"

text \<open>
  The loop of \<^verbatim>\<open>_execute_task\<close>:
  \<^verbatim>\<open>for i in range(0, times): self.q.enqueue(jobs.execute_worker, task_id, operation)\<close>.
  Nothing catches what \<^verbatim>\<open>enqueue\<close> raises, so the first exception ends the loop.
\<close>

fun enqueue_loop ::
  "('w, 's, 't) env \<Rightarrow> queue \<Rightarrow> string \<Rightarrow> pyval \<Rightarrow> int list \<Rightarrow> ('w, 's) st
     \<Rightarrow> exn option \<times> ('w, 's) st" where
  "enqueue_loop env self_q task_id operation [] s = (None, s)"
| "enqueue_loop env self_q task_id operation (i # idxs) s =
     (case invoke (Enqueue (q_name self_q) execute_worker task_id operation)
             (enqueue env self_q execute_worker task_id operation) s of
        (Inl e, s') \<Rightarrow> (Some e, s')
      | (Inr u, s') \<Rightarrow> enqueue_loop env self_q task_id operation idxs s')"

text \<open>\<^verbatim>\<open>_execute_task(self, resp, task_id, times, operation)\<close>\<close>

definition execute_task ::
  "('w, 's, 't) env \<Rightarrow> resource \<Rightarrow> response \<Rightarrow> string \<Rightarrow> pyval \<Rightarrow> pyval \<Rightarrow> ('w, 's) st
     \<Rightarrow> ('w, 's) outcome" where
  "execute_task env self resp task_id times' operation s =
     (let resp1 = resp\<lparr>status := HTTP_200\<rparr> in
      case py_range times' of
        Inl e \<Rightarrow> \<lparr>raised = Some e, response = resp1, final = s\<rparr>
      | Inr idxs \<Rightarrow>
          (case enqueue_loop env (q self) task_id operation idxs s of
             (exc, s') \<Rightarrow> \<lparr>raised = exc, response = resp1, final = s'\<rparr>))"

text \<open>
  The \<^verbatim>\<open>finally\<close> clause of \<^verbatim>\<open>_create_new_task\<close> and of \<^verbatim>\<open>on_get\<close>:
  \<^verbatim>\<open>utils.close_db_session(session)\<close>, then \<^verbatim>\<open>return resp\<close>. The local variable
  \<^verbatim>\<open>session\<close> is bound by the first statement of the \<^verbatim>\<open>try\<close> block; when that
  statement raised it is unbound (\<open>None\<close> here), and reading it raises
  \<^verbatim>\<open>UnboundLocalError\<close> before \<^verbatim>\<open>close_db_session\<close> is called.
\<close>

definition finally_close ::
  "('w, 's, 't) env \<Rightarrow> 's option \<Rightarrow> response \<Rightarrow> ('w, 's) st \<Rightarrow> ('w, 's) outcome" where
  "finally_close env session resp s =
     (case session of
        None \<Rightarrow> \<lparr>raised = Some (UnboundLocalError ''session''), response = resp, final = s\<rparr>
      | Some sess \<Rightarrow>
          (case invoke (CloseDbSession sess) (close_db_session env sess) s of
             (Inl e, s') \<Rightarrow> \<lparr>raised = Some e, response = resp, final = s'\<rparr>
           | (Inr u, s') \<Rightarrow> \<lparr>raised = None, response = resp, final = s'\<rparr>))"

text \<open>
  The bare \<^verbatim>\<open>except:\<close> clause of both functions: \<^verbatim>\<open>resp.status = falcon.HTTP_500\<close> when
  the \<^verbatim>\<open>try\<close> block raised anything.
\<close>

definition except_500 :: "exn option \<Rightarrow> response \<Rightarrow> response" where
  "except_500 exc resp = (case exc of None \<Rightarrow> resp | Some e \<Rightarrow> resp\<lparr>status := HTTP_500\<rparr>)"

text \<open>
  The \<^verbatim>\<open>try\<close> block of \<^verbatim>\<open>_create_new_task\<close>. It gives the exception that ended it, if
  any, the local variable \<^verbatim>\<open>session\<close>, the response and the state.
\<close>

definition create_new_task_try ::
  "('w, 's, 't) env \<Rightarrow> response \<Rightarrow> pyval \<Rightarrow> pyval \<Rightarrow> ('w, 's) st
     \<Rightarrow> exn option \<times> 's option \<times> response \<times> ('w, 's) st" where
  "create_new_task_try env resp repository name s =
     (case invoke CreateDbSession (create_db_session env) s of
        (Inl e, s1) \<Rightarrow> (Some e, None, resp, s1)
      | (Inr session, s1) \<Rightarrow>
          (case invoke (CreateUniqueTask session repository name)
                  (create_unique_task env session repository name) s1 of
             (Inl e, s2) \<Rightarrow> (Some e, Some session, resp, s2)
           | (Inr (task, created), s2) \<Rightarrow>
               (let resp1 = resp\<lparr>status := (if created then HTTP_201 else HTTP_409)\<rparr>;
                    resp2 = resp1\<lparr>location :=
                      Some (''/'' @ resp_str env resp1 @ ''/task/'' @ id_str env task @ ''/'')\<rparr>
                in (None, Some session, resp2, s2))))"

text \<open>\<^verbatim>\<open>_create_new_task(self, resp, repository, name)\<close>\<close>

definition create_new_task ::
  "('w, 's, 't) env \<Rightarrow> response \<Rightarrow> pyval \<Rightarrow> pyval \<Rightarrow> ('w, 's) st \<Rightarrow> ('w, 's) outcome" where
  "create_new_task env resp repository name s =
     (case create_new_task_try env resp repository name s of
        (exc, session, resp', s') \<Rightarrow> finally_close env session (except_500 exc resp') s')"

text \<open>The \<^verbatim>\<open>try\<close> block of \<^verbatim>\<open>on_get\<close>.\<close>

definition on_get_try ::
  "('w, 's, 't) env \<Rightarrow> response \<Rightarrow> string option \<Rightarrow> ('w, 's) st
     \<Rightarrow> exn option \<times> 's option \<times> response \<times> ('w, 's) st" where
  "on_get_try env resp task_id s =
     (case invoke CreateDbSession (create_db_session env) s of
        (Inl e, s1) \<Rightarrow> (Some e, None, resp, s1)
      | (Inr session, s1) \<Rightarrow>
          (if truthy_id task_id then
             (case invoke (FindById session (the task_id))
                     (find_by_id env session (the task_id)) s1 of
                (Inl e, s2) \<Rightarrow> (Some e, Some session, resp, s2)
              | (Inr (Some task), s2) \<Rightarrow>
                  (case serialize env task of
                     Inl e \<Rightarrow> (Some e, Some session, resp, s2)
                   | Inr b \<Rightarrow>
                       (None, Some session, resp\<lparr>body := Some b, status := HTTP_200\<rparr>, s2))
              | (Inr None, s2) \<Rightarrow> (None, Some session, resp\<lparr>status := HTTP_404\<rparr>, s2))
           else
             (case invoke (FindAll session) (find_all env session) s1 of
                (Inl e, s2) \<Rightarrow> (Some e, Some session, resp, s2)
              | (Inr tasks, s2) \<Rightarrow>
                  (case serialize_tasks env tasks of
                     Inl e \<Rightarrow> (Some e, Some session, resp, s2)
                   | Inr b \<Rightarrow>
                       (let resp1 = resp\<lparr>body := Some b\<rparr> in
                        if length tasks > 0
                        then (None, Some session, resp1\<lparr>status := HTTP_200\<rparr>, s2)
                        else (None, Some session, resp1\<lparr>status := HTTP_404\<rparr>, s2))))))"

text \<open>\<^verbatim>\<open>on_get(self, req, resp, task_id=None)\<close>\<close>

definition on_get ::
  "('w, 's, 't) env \<Rightarrow> response \<Rightarrow> string option \<Rightarrow> ('w, 's) st \<Rightarrow> ('w, 's) outcome" where
  "on_get env resp task_id s =
     (case on_get_try env resp task_id s of
        (exc, session, resp', s') \<Rightarrow> finally_close env session (except_500 exc resp') s')"

text \<open>\<^verbatim>\<open>on_post(self, req, resp, task_id=None)\<close>\<close>

definition on_post ::
  "('w, 's, 't) env \<Rightarrow> resource \<Rightarrow> request \<Rightarrow> response \<Rightarrow> string option \<Rightarrow> ('w, 's) st
     \<Rightarrow> ('w, 's) outcome" where
  "on_post env self req resp task_id s =
     (let raw_json = read_stream env req;
          parsed_json = raw_to_dict env raw_json
      in if truthy_id task_id then
           (let operation = dict_get parsed_json ''operation'' (PStr ''RUN'');
                times' = dict_get parsed_json ''times'' (PInt 1)
            in execute_task env self resp (the task_id) times' operation s)
         else
           (let repository = dict_get parsed_json ''repository'' PNone;
                name = dict_get parsed_json ''name'' PNone
            in create_new_task env resp repository name s))"

section \<open>The Task model and the store\<close>

text \<open>
  \<^verbatim>\<open>models.Task\<close>, \<^verbatim>\<open>utils.create_db_session\<close> and the queue are not part of
  \<^verbatim>\<open>resources.py\<close>. The definitions of this section give them one concrete behaviour,
  taken from the specification, on which the handlers can be run.
\<close>

text \<open>
  Modelled from the spec: the Task record of \<^verbatim>\<open>models.py\<close>, which is missing. Attributes:
  \<open>id\<close> (unique, server-assigned), \<open>repository\<close>, \<open>name\<close>.
\<close>

record task =
  t_id :: int
  t_repository :: pyval
  t_name :: pyval

text \<open>The uniqueness key of a Task: its (repository, name) pair.\<close>

definition task_key :: "task \<Rightarrow> pyval \<times> pyval" where
  "task_key t = (t_repository t, t_name t)"

text \<open>
  Modelled from the spec: the persisted state that the missing database layer keeps. The
  Task rows in creation order, the sessions handed out and not yet closed, and the jobs
  on the queues.
\<close>

record store =
  rows :: "task list"
  sessions_made :: nat
  open_sessions :: "nat list"
  queued :: "(string \<times> worker \<times> string \<times> pyval) list"

definition empty_store :: store where
  "empty_store = \<lparr>rows = [], sessions_made = 0, open_sessions = [], queued = []\<rparr>"

text \<open>Python's \<^verbatim>\<open>str\<close> of an integer: its decimal digits, with a sign when negative.\<close>

definition digit_char :: "nat \<Rightarrow> char" where
  "digit_char d = ''0123456789'' ! d"

fun str_nat :: "nat \<Rightarrow> string" where
  "str_nat n = (if n < 10 then [digit_char n] else str_nat (n div 10) @ [digit_char (n mod 10)])"

declare str_nat.simps [simp del]

definition str_int :: "int \<Rightarrow> string" where
  "str_int i = (if i < 0 then CHR ''-'' # str_nat (nat (- i)) else str_nat (nat i))"

text \<open>
  Modelled from the spec: the id the server assigns to a new Task, which the missing
  \<^verbatim>\<open>models.py\<close> leaves to the database. Here: one more than the largest id in use.
\<close>

definition next_id :: "task list \<Rightarrow> int" where
  "next_id ts = fold max (map t_id ts) 0 + 1"

text \<open>
  Modelled from the spec: \<^verbatim>\<open>Task.create_unique_task(session, repository, name)\<close> of the
  missing \<^verbatim>\<open>models.py\<close>. Create-if-absent: it returns the existing record if a matching
  key exists, otherwise creates and returns a new one, signalling which case occurred.
  A missing field (\<open>None\<close>) makes the creation raise.
\<close>

definition create_unique_task_model ::
  "nat \<Rightarrow> pyval \<Rightarrow> pyval \<Rightarrow> store \<Rightarrow> (exn + task \<times> bool) \<times> store" where
  "create_unique_task_model session repository name w =
     (if repository = PNone \<or> name = PNone
      then (Inl (CollaboratorError ''IntegrityError''), w)
      else (case find (\<lambda>t. task_key t = (repository, name)) (rows w) of
              Some t \<Rightarrow> (Inr (t, False), w)
            | None \<Rightarrow>
                (let t = \<lparr>t_id = next_id (rows w), t_repository = repository, t_name = name\<rparr>
                 in (Inr (t, True), w\<lparr>rows := rows w @ [t]\<rparr>))))"

text \<open>
  Modelled from the spec: \<^verbatim>\<open>Task.find_by_id\<close> and \<^verbatim>\<open>Task.find_all\<close> of the missing
  \<^verbatim>\<open>models.py\<close>. The id of a request is the text of a path segment; it finds the Task
  whose id is written so.
\<close>

definition find_by_id_model :: "nat \<Rightarrow> string \<Rightarrow> store \<Rightarrow> (exn + task option) \<times> store" where
  "find_by_id_model session task_id w = (Inr (find (\<lambda>t. str_int (t_id t) = task_id) (rows w)), w)"

definition find_all_model :: "nat \<Rightarrow> store \<Rightarrow> (exn + task list) \<times> store" where
  "find_all_model session w = (Inr (rows w), w)"

text \<open>
  Modelled from the spec: \<^verbatim>\<open>Task.serialize\<close> and \<^verbatim>\<open>Task.serialize_tasks\<close> of the missing
  \<^verbatim>\<open>models.py\<close>. The specification leaves the format open; the id stands for the Task.
\<close>

definition serialize_model :: "task \<Rightarrow> exn + string" where
  "serialize_model t = Inr (''task '' @ str_int (t_id t))"

definition serialize_tasks_model :: "task list \<Rightarrow> exn + string" where
  "serialize_tasks_model ts = Inr (concat (map (\<lambda>t. ''task '' @ str_int (t_id t) @ ''; '') ts))"

text \<open>
  Modelled from the spec: \<^verbatim>\<open>utils.create_db_session\<close> and \<^verbatim>\<open>utils.close_db_session\<close> of
  the missing \<^verbatim>\<open>utils.py\<close>. A session is acquired per request and released.
\<close>

definition create_db_session_model :: "store \<Rightarrow> (exn + nat) \<times> store" where
  "create_db_session_model w =
     (Inr (sessions_made w),
      w\<lparr>sessions_made := Suc (sessions_made w),
        open_sessions := sessions_made w # open_sessions w\<rparr>)"

definition close_db_session_model :: "nat \<Rightarrow> store \<Rightarrow> (exn + unit) \<times> store" where
  "close_db_session_model session w =
     (Inr (), w\<lparr>open_sessions := removeAll session (open_sessions w)\<rparr>)"

text \<open>The queue client: \<^verbatim>\<open>enqueue\<close> puts one job at the end of the named queue.\<close>

definition enqueue_model ::
  "queue \<Rightarrow> worker \<Rightarrow> string \<Rightarrow> pyval \<Rightarrow> store \<Rightarrow> (exn + unit) \<times> store" where
  "enqueue_model qu f task_id operation w =
     (Inr (), w\<lparr>queued := queued w @ [(q_name qu, f, task_id, operation)]\<rparr>)"

text \<open>
  Modelled from the spec: the collaborators together, with \<^verbatim>\<open>api_utils._read_stream\<close>
  of the missing \<^verbatim>\<open>api/utils.py\<close>, which drains the request body to its raw text. The
  JSON decoder behind \<^verbatim>\<open>api_utils._raw_to_dict\<close> is a parameter; \<^verbatim>\<open>str\<close> of the
  response object is the default \<^verbatim>\<open>repr\<close> of an object.
\<close>

definition store_env :: "(string \<Rightarrow> pydict) \<Rightarrow> (store, nat, task) env" where
  "store_env json_loads =
     \<lparr>create_db_session = create_db_session_model,
      close_db_session = close_db_session_model,
      create_unique_task = create_unique_task_model,
      find_by_id = find_by_id_model,
      find_all = find_all_model,
      serialize = serialize_model,
      serialize_tasks = serialize_tasks_model,
      id_str = (\<lambda>t. str_int (t_id t)),
      resp_str = (\<lambda>r. ''<falcon.response.Response object>''),
      enqueue = enqueue_model,
      read_stream = stream,
      raw_to_dict = json_loads\<rparr>"

text \<open>
  The stores that requests can produce: from the empty store, by any sequence of
  \<^verbatim>\<open>GET\<close> and \<^verbatim>\<open>POST\<close> requests to the Task resource.
\<close>

inductive reachable :: "store \<Rightarrow> bool" where
  reachable_empty: "reachable empty_store"
| reachable_get:
    "reachable w \<Longrightarrow>
     w' = world (final (on_get (store_env json_loads) resp task_id \<lparr>world = w, trace = tr\<rparr>)) \<Longrightarrow>
     reachable w'"
| reachable_post:
    "reachable w \<Longrightarrow>
     w' = world (final (on_post (store_env json_loads) self req resp task_id
                          \<lparr>world = w, trace = tr\<rparr>)) \<Longrightarrow>
     reachable w'"

section \<open>Sample requests and environments\<close>

text \<open>A fresh response object, a request without a body, and a new resource.\<close>

definition resp0 :: response where
  "resp0 = \<lparr>status = HTTP_200, body = None, location = None\<rparr>"

definition req_empty :: request where
  "req_empty = \<lparr>headers = [], stream = []\<rparr>"

definition self0 :: resource where
  "self0 = fst (TaskResource_init (\<lambda>a. Map.empty))"

definition s0 :: "(store, nat) st" where
  "s0 = \<lparr>world = empty_store, trace = []\<rparr>"

text \<open>
  Decoders: the body of \<open>req_empty\<close> decodes to the empty mapping; \<open>json_times n\<close> and
  \<open>json_task r n\<close> stand for a decoder on a body that holds those keys.
\<close>

definition no_json :: "string \<Rightarrow> pydict" where
  "no_json raw = Map.empty"

definition json_times :: "int \<Rightarrow> string \<Rightarrow> pydict" where
  "json_times n raw = [''times'' \<mapsto> PInt n]"

definition json_task :: "string \<Rightarrow> string \<Rightarrow> string \<Rightarrow> pydict" where
  "json_task r n raw = [''repository'' \<mapsto> PStr r, ''name'' \<mapsto> PStr n]"

text \<open>The store's collaborators with a queue backend, or a database, that is down.\<close>

definition redis_down_env :: "(store, nat, task) env" where
  "redis_down_env =
     (store_env no_json)\<lparr>enqueue :=
        (\<lambda>qu f task_id operation w. (Inl (CollaboratorError ''ConnectionError''), w))\<rparr>"

definition db_down_env :: "(string \<Rightarrow> pydict) \<Rightarrow> (store, nat, task) env" where
  "db_down_env json_loads =
     (store_env json_loads)\<lparr>create_db_session :=
        (\<lambda>w. (Inl (CollaboratorError ''OperationalError''), w))\<rparr>"

text \<open>
  The store after the first POST /task, for the Task (\<open>repo\<close>, \<open>build\<close>), and a request
  that starts there.
\<close>

definition store1 :: store where
  "store1 = world (final
     (on_post (store_env (json_task ''repo'' ''build'')) self0 req_empty resp0 None s0))"

definition s1 :: "(store, nat) st" where
  "s1 = \<lparr>world = store1, trace = []\<rparr>"

text \<open>
  A default configuration, two resources made one after the other, and a queue made for
  the first resource with another port.
\<close>

definition heap0 :: heap where
  "heap0 = (\<lambda>a. Map.empty)
     (config_DEFAULT := [''host'' \<mapsto> PStr ''localhost'', ''port'' \<mapsto> PInt 6379])"

definition res_a :: resource where
  "res_a = fst (TaskResource_init heap0)"

definition heap_a :: heap where
  "heap_a = snd (TaskResource_init heap0)"

definition res_b :: resource where
  "res_b = fst (TaskResource_init heap_a)"

definition heap_b :: heap where
  "heap_b = snd (TaskResource_init heap_a)"

definition heap_c :: heap where
  "heap_c = snd (create_queue (redis_config res_a) ''default'' [''port'' \<mapsto> PInt 6380] heap_b)"

text \<open>
  What the rows of a store keep: no two rows with the same (repository, name) pair,
  and no row with a missing field.
\<close>

definition rows_ok :: "task list \<Rightarrow> bool" where
  "rows_ok rs = (distinct (map task_key rs) \<and>
     list_all (\<lambda>t. t_repository t \<noteq> PNone \<and> t_name t \<noteq> PNone) rs)"

text \<open>The calls that acquire or release a database session.\<close>

fun session_call :: "'s call \<Rightarrow> bool" where
  "session_call CreateDbSession = True"
| "session_call (CloseDbSession sess) = True"
| "session_call c = False"

text \<open>A decoder on a body that gives \<open>times\<close> as a string.\<close>

definition json_times_text :: "string \<Rightarrow> string \<Rightarrow> pydict" where
  "json_times_text x raw = [''times'' \<mapsto> PStr x]"

section \<open>The log of a call and of the enqueue loop\<close>

lemma invoke_trace:
  "invoke c f s = (r, s') \<Longrightarrow>
   trace s' = trace s @ [(c, case r of Inl e \<Rightarrow> Some e | Inr v \<Rightarrow> None)] \<and>
   (r, world s') = f (world s)"
  by (auto simp: invoke_def split: prod.splits)

text \<open>
  The loop logs some calls that returned and, when it ended by an exception, the call
  that raised it as the last one.
\<close>

lemma enqueue_loop_trace:
  "enqueue_loop env qu tid opn idxs s = (r, s') \<Longrightarrow>
   \<exists>k. trace s' = trace s
          @ replicate k (Enqueue (q_name qu) execute_worker tid opn, None)
          @ (case r of None \<Rightarrow> []
             | Some e \<Rightarrow> [(Enqueue (q_name qu) execute_worker tid opn, Some e)])
      \<and> (case r of None \<Rightarrow> k = length idxs | Some e \<Rightarrow> k < length idxs)"
proof (induction idxs arbitrary: s)
  case Nil
  then show ?case by simp
next
  case (Cons i idxs)
  obtain r1 s1 where inv:
    "invoke (Enqueue (q_name qu) execute_worker tid opn)
       (enqueue env qu execute_worker tid opn) s = (r1, s1)"
    by (cases "invoke (Enqueue (q_name qu) execute_worker tid opn)
                 (enqueue env qu execute_worker tid opn) s") auto
  note tr = invoke_trace [OF inv]
  show ?case
  proof (cases r1)
    case (Inl e)
    with Cons.prems inv tr show ?thesis
      by (auto intro!: exI [of _ 0])
  next
    case (Inr u)
    with Cons.prems inv have "enqueue_loop env qu tid opn idxs s1 = (r, s')"
      by simp
    from Cons.IH [OF this] obtain k where
      k: "trace s' = trace s1
            @ replicate k (Enqueue (q_name qu) execute_worker tid opn, None)
            @ (case r of None \<Rightarrow> []
               | Some e \<Rightarrow> [(Enqueue (q_name qu) execute_worker tid opn, Some e)])"
         "(case r of None \<Rightarrow> k = length idxs | Some e \<Rightarrow> k < length idxs)"
      by blast
    show ?thesis
      using k tr Inr
      by (intro exI [of _ "Suc k"]) (auto split: option.splits)
  qed
qed

text \<open>A queue that accepts every job lets the loop run to its end.\<close>

lemma enqueue_loop_accepts:
  "\<forall>w. fst (enqueue env qu execute_worker tid opn w) = Inr () \<Longrightarrow>
   fst (enqueue_loop env qu tid opn idxs s) = None"
proof (induction idxs arbitrary: s)
  case Nil
  then show ?case by simp
next
  case (Cons i idxs)
  have "fst (enqueue env qu execute_worker tid opn (world s)) = Inr ()"
    using Cons.prems by blast
  then show ?case
    using Cons.IH [OF Cons.prems]
    by (auto simp: invoke_def split: prod.splits sum.splits)
qed

lemma execute_task_status: "status (response (execute_task env self resp tid tms opn s)) = HTTP_200"
  by (auto simp: execute_task_def Let_def split: sum.splits prod.splits)

lemma execute_task_raised:
  assumes mem: "(c, Some e) \<in> set (new_events s (execute_task env self resp tid tms opn s))"
  shows "raised (execute_task env self resp tid tms opn s) = Some e"
proof (cases "py_range tms")
  case (Inl x)
  with mem show ?thesis
    by (simp add: execute_task_def new_events_def)
next
  case (Inr idxs)
  obtain r s' where loop: "enqueue_loop env (q self) tid opn idxs s = (r, s')"
    by (cases "enqueue_loop env (q self) tid opn idxs s") auto
  from enqueue_loop_trace [OF loop] obtain k where
    k: "trace s' = trace s
          @ replicate k (Enqueue (q_name (q self)) execute_worker tid opn, None)
          @ (case r of None \<Rightarrow> []
             | Some e \<Rightarrow> [(Enqueue (q_name (q self)) execute_worker tid opn, Some e)])"
    by blast
  have out: "raised (execute_task env self resp tid tms opn s) = r"
    "final (execute_task env self resp tid tms opn s) = s'"
    using Inr loop by (simp_all add: execute_task_def)
  from mem out k show ?thesis
    by (auto simp: new_events_def split: option.splits)
qed

lemma on_post_with_id:
  "task_id = Some tid \<Longrightarrow> tid \<noteq> [] \<Longrightarrow>
   on_post env self req resp task_id s =
     execute_task env self resp tid
       (dict_get (raw_to_dict env (read_stream env req)) ''times'' (PInt 1))
       (dict_get (raw_to_dict env (read_stream env req)) ''operation'' (PStr ''RUN'')) s"
  by (simp add: on_post_def Let_def)

lemma self0_q_name: "q_name (q self0) = ''default''"
  by (simp add: self0_def TaskResource_init_def create_queue_def Let_def)

lemma s0_trace: "trace s0 = []"
  by (simp add: s0_def)

section \<open>POST /task/{id}: status and failures of the queue\<close>

text \<open>
  Claim C6. For every POST /task/{id} request the handler sets status 200, whatever
  happens when the jobs are submitted; and nothing in the handler catches an exception
  of \<^verbatim>\<open>enqueue\<close>: whenever a logged call raised \<open>e\<close>, the handler itself ends by
  raising \<open>e\<close>.
\<close>

theorem on_post_status_200_enqueue_propagates:
  assumes "task_id = Some tid" and "tid \<noteq> []"
  shows "status (response (on_post env self req resp task_id s)) = HTTP_200 \<and>
         (\<forall>c e. (c, Some e) \<in> set (new_events s (on_post env self req resp task_id s)) \<longrightarrow>
                raised (on_post env self req resp task_id s) = Some e)"
  unfolding on_post_with_id [OF assms]
  using execute_task_status execute_task_raised by blast

lemma on_post_redis_down:
  "on_post redis_down_env self0 req_empty resp0 (Some ''7'') s0 =
     \<lparr>raised = Some (CollaboratorError ''ConnectionError''),
      response = resp0\<lparr>status := HTTP_200\<rparr>,
      final = \<lparr>world = empty_store,
               trace = [(Enqueue ''default'' execute_worker ''7'' (PStr ''RUN''),
                         Some (CollaboratorError ''ConnectionError''))]\<rparr>\<rparr>"
  by (simp add: on_post_def execute_task_def py_range_def dict_get_def redis_down_env_def
      store_env_def no_json_def invoke_def s0_def self0_q_name Let_def upto.simps)

text \<open>
  With the queue backend down, POST /task/7 without a body: the one call of
  \<^verbatim>\<open>enqueue\<close> raises, the handler raises the same exception, and the status is 200.
\<close>

theorem on_post_status_200_enqueue_propagates_witness:
  "status (response (on_post redis_down_env self0 req_empty resp0 (Some ''7'') s0)) = HTTP_200 \<and>
   (Enqueue ''default'' execute_worker ''7'' (PStr ''RUN''),
      Some (CollaboratorError ''ConnectionError''))
     \<in> set (new_events s0 (on_post redis_down_env self0 req_empty resp0 (Some ''7'') s0)) \<and>
   raised (on_post redis_down_env self0 req_empty resp0 (Some ''7'') s0)
     = Some (CollaboratorError ''ConnectionError'')"
  using on_post_status_200_enqueue_propagates
    [of "Some ''7''" "''7''" redis_down_env self0 req_empty resp0 s0]
  by (simp add: on_post_redis_down new_events_def s0_trace)

section \<open>POST /task/{id}: the jobs submitted\<close>

lemma init_q_name: "q_name (q (fst (TaskResource_init h))) = ''default''"
  by (simp add: TaskResource_init_def create_queue_def Let_def)

lemma execute_task_accepts:
  assumes acc: "\<forall>w. fst (enqueue env (q self) execute_worker tid opn w) = Inr ()"
  shows "new_events s (execute_task env self resp tid (PInt n) opn s)
           = replicate (nat n) (Enqueue (q_name (q self)) execute_worker tid opn, None) \<and>
         raised (execute_task env self resp tid (PInt n) opn s) = None"
proof -
  obtain r s' where loop: "enqueue_loop env (q self) tid opn [0..n - 1] s = (r, s')"
    by (cases "enqueue_loop env (q self) tid opn [0..n - 1] s") auto
  have r: "r = None"
    using enqueue_loop_accepts [OF acc, of "[0..n - 1]" s] loop by simp
  from enqueue_loop_trace [OF loop] r have
    "trace s' = trace s
       @ replicate (length [0..n - 1]) (Enqueue (q_name (q self)) execute_worker tid opn, None)"
    by auto
  moreover have "length [0..n - 1] = nat n"
    by simp
  ultimately show ?thesis
    using loop r by (simp add: execute_task_def py_range_def new_events_def)
qed

text \<open>
  Claim C2. A POST /task/{id} request reads \<open>operation\<close> (default \<open>RUN\<close>) and \<open>times\<close>
  (default 1) from the decoded body with \<^verbatim>\<open>dict.get\<close>, so an absent body or key gives the
  default. When \<open>times\<close> is the integer \<open>n\<close> and the queue accepts the jobs, the handler
  makes exactly \<open>n\<close> calls of \<^verbatim>\<open>enqueue\<close> (none for \<open>n \<le> 0\<close>), each on the queue named
  \<open>default\<close> that \<^verbatim>\<open>__init__\<close> created, each with the same task id and operation, and
  returns.
\<close>

theorem on_post_enqueues_times:
  assumes "task_id = Some tid" and "tid \<noteq> []"
    and "self = fst (TaskResource_init h)"
    and "parsed_json = raw_to_dict env (read_stream env req)"
    and "operation = dict_get parsed_json ''operation'' (PStr ''RUN'')"
    and "dict_get parsed_json ''times'' (PInt 1) = PInt n"
    and "\<forall>w. fst (enqueue env (q self) execute_worker tid operation w) = Inr ()"
  shows "new_events s (on_post env self req resp task_id s)
           = replicate (nat n) (Enqueue ''default'' execute_worker tid operation, None) \<and>
         raised (on_post env self req resp task_id s) = None"
  using assms execute_task_accepts [of env self tid operation s resp n]
  by (simp add: on_post_with_id init_q_name)

lemma on_post_three:
  "on_post (store_env (json_times 3)) self0 req_empty resp0 (Some ''7'') s0 =
     \<lparr>raised = None,
      response = resp0\<lparr>status := HTTP_200\<rparr>,
      final = \<lparr>world = empty_store
                 \<lparr>queued := replicate 3 (''default'', execute_worker, ''7'', PStr ''RUN'')\<rparr>,
               trace = replicate 3 (Enqueue ''default'' execute_worker ''7'' (PStr ''RUN''), None)\<rparr>\<rparr>"
  by (simp add: on_post_def execute_task_def py_range_def dict_get_def
      store_env_def json_times_def invoke_def s0_def self0_q_name Let_def upto.simps
      enqueue_model_def empty_store_def numeral_3_eq_3)

text \<open>
  POST /task/7 with \<open>times = 3\<close>: three calls, and three equal jobs on the queue
  \<open>default\<close>. POST /task/7 without a body: one call, with operation \<open>RUN\<close>.
\<close>

theorem on_post_enqueues_times_witness:
  "new_events s0 (on_post (store_env (json_times 3)) self0 req_empty resp0 (Some ''7'') s0)
     = [(Enqueue ''default'' execute_worker ''7'' (PStr ''RUN''), None),
        (Enqueue ''default'' execute_worker ''7'' (PStr ''RUN''), None),
        (Enqueue ''default'' execute_worker ''7'' (PStr ''RUN''), None)] \<and>
   queued (world (final
       (on_post (store_env (json_times 3)) self0 req_empty resp0 (Some ''7'') s0)))
     = [(''default'', execute_worker, ''7'', PStr ''RUN''),
        (''default'', execute_worker, ''7'', PStr ''RUN''),
        (''default'', execute_worker, ''7'', PStr ''RUN'')] \<and>
   new_events s0 (on_post (store_env no_json) self0 req_empty resp0 (Some ''7'') s0)
     = [(Enqueue ''default'' execute_worker ''7'' (PStr ''RUN''), None)]"
proof -
  have acc: "\<forall>w. fst (enqueue (store_env jl) (q self0) execute_worker ''7'' (PStr ''RUN'') w)
               = Inr ()" for jl
    by (simp add: store_env_def enqueue_model_def)
  have a: "new_events s0 (on_post (store_env (json_times 3)) self0 req_empty resp0 (Some ''7'') s0)
     = replicate (nat 3) (Enqueue ''default'' execute_worker ''7'' (PStr ''RUN''), None)"
    using on_post_enqueues_times [of "Some ''7''" "''7''" self0 "\<lambda>a. Map.empty"
        "json_times 3 []" "store_env (json_times 3)" req_empty "PStr ''RUN''" 3 s0 resp0] acc
    by (simp add: self0_def store_env_def json_times_def dict_get_def req_empty_def)
  have b: "new_events s0 (on_post (store_env no_json) self0 req_empty resp0 (Some ''7'') s0)
     = replicate (nat 1) (Enqueue ''default'' execute_worker ''7'' (PStr ''RUN''), None)"
    using on_post_enqueues_times [of "Some ''7''" "''7''" self0 "\<lambda>a. Map.empty"
        "no_json []" "store_env no_json" req_empty "PStr ''RUN''" 1 s0 resp0] acc
    by (simp add: self0_def store_env_def no_json_def dict_get_def req_empty_def)
  show ?thesis
    using a b by (simp add: on_post_three numeral_3_eq_3)
qed

text \<open>
  Claim C10. When the body of a POST /task/{id} request gives \<open>times\<close> as an integer that
  is zero or negative, \<^verbatim>\<open>range(0, times)\<close> is empty: the handler calls no collaborator at
  all, so it enqueues nothing, and it returns with status 200, which it had set before the
  loop.
\<close>

theorem on_post_nonpositive_times:
  assumes "task_id = Some tid" and "tid \<noteq> []"
    and "raw_to_dict env (read_stream env req) ''times'' = Some (PInt n)"
    and "n \<le> 0"
  shows "new_events s (on_post env self req resp task_id s) = [] \<and>
         status (response (on_post env self req resp task_id s)) = HTTP_200 \<and>
         raised (on_post env self req resp task_id s) = None \<and>
         final (on_post env self req resp task_id s) = s"
  using assms
  by (simp add: on_post_with_id execute_task_def py_range_def dict_get_def new_events_def)

text \<open>POST /task/7 with \<open>times = -2\<close> on the empty store: the queue stays empty.\<close>

theorem on_post_nonpositive_times_witness:
  "(- 2 :: int) \<le> 0 \<and>
   new_events s0
     (on_post (store_env (json_times (- 2))) self0 req_empty resp0 (Some ''7'') s0) = [] \<and>
   status (response
     (on_post (store_env (json_times (- 2))) self0 req_empty resp0 (Some ''7'') s0)) = HTTP_200 \<and>
   raised (on_post (store_env (json_times (- 2))) self0 req_empty resp0 (Some ''7'') s0) = None \<and>
   queued (world (final
     (on_post (store_env (json_times (- 2))) self0 req_empty resp0 (Some ''7'') s0))) = []"
  using on_post_nonpositive_times
    [of "Some ''7''" "''7''" "store_env (json_times (- 2))" req_empty "- 2" s0 self0 resp0]
  by (simp add: store_env_def json_times_def s0_def empty_store_def)

section \<open>The handlers on the sample stores\<close>

lemmas store_env_defs = store_env_def create_db_session_model_def close_db_session_model_def
  create_unique_task_model_def find_by_id_model_def find_all_model_def serialize_model_def
  serialize_tasks_model_def enqueue_model_def

lemmas handler_defs = on_post_def on_get_def create_new_task_def create_new_task_try_def
  on_get_try_def finally_close_def except_500_def invoke_def dict_get_def Let_def

lemma str_int_small: "str_int 1 = ''1''" "str_int 2 = ''2''"
  by (simp_all add: str_int_def str_nat.simps digit_char_def)

lemma next_id_Nil: "next_id [] = 1"
  by (simp add: next_id_def)

lemma post_first:
  "on_post (store_env (json_task ''repo'' ''build'')) self0 req_empty resp0 None s0 =
    \<lparr>raised = None,
     response = \<lparr>status = HTTP_201, body = None,
                 location = Some ''/<falcon.response.Response object>/task/1/''\<rparr>,
     final = \<lparr>world = \<lparr>rows = [\<lparr>t_id = 1, t_repository = PStr ''repo'',
                                 t_name = PStr ''build''\<rparr>],
                        sessions_made = 1, open_sessions = [], queued = []\<rparr>,
              trace = [(CreateDbSession, None),
                       (CreateUniqueTask 0 (PStr ''repo'') (PStr ''build''), None),
                       (CloseDbSession 0, None)]\<rparr>\<rparr>"
  by (simp add: handler_defs store_env_defs json_task_def s0_def empty_store_def resp0_def
      task_key_def next_id_Nil str_int_small)

lemma store1_eq:
  "store1 = \<lparr>rows = [\<lparr>t_id = 1, t_repository = PStr ''repo'', t_name = PStr ''build''\<rparr>],
             sessions_made = 1, open_sessions = [], queued = []\<rparr>"
  by (simp add: store1_def post_first)

lemma post_other:
  "on_post (store_env (json_task ''repo'' ''test'')) self0 req_empty resp0 None s1 =
    \<lparr>raised = None,
     response = \<lparr>status = HTTP_201, body = None,
                 location = Some ''/<falcon.response.Response object>/task/2/''\<rparr>,
     final = \<lparr>world = \<lparr>rows = [\<lparr>t_id = 1, t_repository = PStr ''repo'',
                                 t_name = PStr ''build''\<rparr>,
                                \<lparr>t_id = 2, t_repository = PStr ''repo'',
                                 t_name = PStr ''test''\<rparr>],
                        sessions_made = 2, open_sessions = [], queued = []\<rparr>,
              trace = [(CreateDbSession, None),
                       (CreateUniqueTask 1 (PStr ''repo'') (PStr ''test''), None),
                       (CloseDbSession 1, None)]\<rparr>\<rparr>"
  by (simp add: handler_defs store_env_defs json_task_def s1_def store1_eq resp0_def
      task_key_def str_int_small next_id_def)

text \<open>What the store's collaborators answer on the sample stores.\<close>

lemma s0_session:
  "create_db_session (store_env jl) (world s0)
     = (Inr 0, empty_store\<lparr>sessions_made := 1, open_sessions := [0]\<rparr>)"
  by (simp add: store_env_defs s0_def empty_store_def)

lemma s1_session:
  "create_db_session (store_env jl) (world s1)
     = (Inr 1, store1\<lparr>sessions_made := 2, open_sessions := [1]\<rparr>)"
  by (simp add: store_env_defs s1_def store1_eq)

lemma db_down_session:
  "create_db_session (db_down_env jl) (world s)
     = (Inl (CollaboratorError ''OperationalError''), world s)"
  by (simp add: db_down_env_def store_env_defs)

lemma store_env_close: "\<forall>w. fst (close_db_session (store_env jl) sess w) = Inr ()"
  by (simp add: store_env_defs)

section \<open>The cleanup and the status of the response\<close>

lemma finally_close_response: "response (finally_close env session resp s) = resp"
  by (auto simp: finally_close_def invoke_def split: option.splits prod.splits sum.splits)

lemma finally_close_returns:
  "\<forall>w. fst (close_db_session env sess w) = Inr () \<Longrightarrow>
   raised (finally_close env (Some sess) resp s) = None"
proof -
  assume "\<forall>w. fst (close_db_session env sess w) = Inr ()"
  then have "fst (close_db_session env sess (world s)) = Inr ()"
    by blast
  then show ?thesis
    by (auto simp: finally_close_def invoke_def split: prod.splits sum.splits)
qed

lemma on_get_try_session:
  "create_db_session env (world s) = (Inr sess, w1) \<Longrightarrow>
   fst (snd (on_get_try env resp task_id s)) = Some sess"
  by (auto simp: on_get_try_def invoke_def Let_def split: option.splits prod.splits sum.splits)

lemma create_new_task_try_session:
  "create_db_session env (world s) = (Inr sess, w1) \<Longrightarrow>
   fst (snd (create_new_task_try env resp repository name s)) = Some sess"
  by (auto simp: create_new_task_try_def invoke_def Let_def
      split: option.splits prod.splits sum.splits)

lemma on_get_response:
  "response (on_get env resp task_id s) =
     except_500 (fst (on_get_try env resp task_id s))
       (fst (snd (snd (on_get_try env resp task_id s))))"
  by (simp add: on_get_def finally_close_response split: prod.splits)

lemma on_get_returns:
  assumes "create_db_session env (world s) = (Inr sess, w1)"
    and "\<forall>w. fst (close_db_session env sess w) = Inr ()"
  shows "raised (on_get env resp task_id s) = None"
  using on_get_try_session [OF assms(1), of resp task_id] finally_close_returns [OF assms(2)]
  by (auto simp: on_get_def split: prod.splits)

lemma on_post_without_id:
  "\<not> truthy_id task_id \<Longrightarrow>
   on_post env self req resp task_id s =
     create_new_task env resp
       (dict_get (raw_to_dict env (read_stream env req)) ''repository'' PNone)
       (dict_get (raw_to_dict env (read_stream env req)) ''name'' PNone) s"
  by (simp add: on_post_def Let_def)

lemma create_new_task_response:
  "response (create_new_task env resp repository name s) =
     except_500 (fst (create_new_task_try env resp repository name s))
       (fst (snd (snd (create_new_task_try env resp repository name s))))"
  by (simp add: create_new_task_def finally_close_response split: prod.splits)

lemma create_new_task_returns:
  assumes "create_db_session env (world s) = (Inr sess, w1)"
    and "\<forall>w. fst (close_db_session env sess w) = Inr ()"
  shows "raised (create_new_task env resp repository name s) = None"
  using create_new_task_try_session [OF assms(1), of resp repository name]
    finally_close_returns [OF assms(2)]
  by (auto simp: create_new_task_def split: prod.splits)

section \<open>GET /task/{id}\<close>

text \<open>
  Claim C5. For a GET /task/{id} request the handler leaves status 200 and the serialized
  Task as the body when \<^verbatim>\<open>Task.find_by_id\<close> finds a Task, status 404 when it finds none,
  and status 500 when anything in the \<^verbatim>\<open>try\<close> block raises: the session, the lookup or
  the serialization. It returns whenever the session was acquired and closing it does not
  raise.
\<close>

theorem on_get_by_id_status:
  assumes "task_id = Some tid" and "tid \<noteq> []"
    and "out = on_get env resp task_id s"
  shows
    "(\<forall>sess w1 t w2 b.
        create_db_session env (world s) = (Inr sess, w1) \<and>
        find_by_id env sess tid w1 = (Inr (Some t), w2) \<and> serialize env t = Inr b \<longrightarrow>
        status (response out) = HTTP_200 \<and> body (response out) = Some b) \<and>
     (\<forall>sess w1 w2.
        create_db_session env (world s) = (Inr sess, w1) \<and>
        find_by_id env sess tid w1 = (Inr None, w2) \<longrightarrow>
        status (response out) = HTTP_404) \<and>
     (\<forall>e w1. create_db_session env (world s) = (Inl e, w1) \<longrightarrow>
        status (response out) = HTTP_500) \<and>
     (\<forall>sess w1 e w2.
        create_db_session env (world s) = (Inr sess, w1) \<and>
        find_by_id env sess tid w1 = (Inl e, w2) \<longrightarrow>
        status (response out) = HTTP_500) \<and>
     (\<forall>sess w1 t w2 e.
        create_db_session env (world s) = (Inr sess, w1) \<and>
        find_by_id env sess tid w1 = (Inr (Some t), w2) \<and> serialize env t = Inl e \<longrightarrow>
        status (response out) = HTTP_500) \<and>
     (\<forall>sess w1.
        create_db_session env (world s) = (Inr sess, w1) \<and>
        (\<forall>w. fst (close_db_session env sess w) = Inr ()) \<longrightarrow>
        raised out = None)"
  unfolding assms(3) on_get_response using assms(1,2) on_get_returns [of env s]
  by (auto simp: on_get_try_def except_500_def invoke_def)

text \<open>
  On the store that holds Task 1: GET /task/1 gives 200 and the Task, GET /task/9 gives
  404, and GET /task/1 with the database down gives 500.
\<close>

theorem on_get_by_id_status_witness:
  "status (response (on_get (store_env no_json) resp0 (Some ''1'') s1)) = HTTP_200 \<and>
   body (response (on_get (store_env no_json) resp0 (Some ''1'') s1)) = Some ''task 1'' \<and>
   raised (on_get (store_env no_json) resp0 (Some ''1'') s1) = None \<and>
   status (response (on_get (store_env no_json) resp0 (Some ''9'') s1)) = HTTP_404 \<and>
   status (response (on_get (db_down_env no_json) resp0 (Some ''1'') s1)) = HTTP_500"
proof -
  have b: "find_by_id (store_env no_json) 1 ''1''
             (store1\<lparr>sessions_made := 2, open_sessions := [1]\<rparr>)
      = (Inr (Some \<lparr>t_id = 1, t_repository = PStr ''repo'', t_name = PStr ''build''\<rparr>),
         store1\<lparr>sessions_made := 2, open_sessions := [1]\<rparr>)"
    by (simp add: store_env_defs store1_eq str_int_small)
  have c: "serialize (store_env no_json)
             \<lparr>t_id = 1, t_repository = PStr ''repo'', t_name = PStr ''build''\<rparr> = Inr ''task 1''"
    by (simp add: store_env_defs str_int_small)
  have d: "find_by_id (store_env no_json) 1 ''9''
             (store1\<lparr>sessions_made := 2, open_sessions := [1]\<rparr>)
      = (Inr None, store1\<lparr>sessions_made := 2, open_sessions := [1]\<rparr>)"
    by (simp add: store_env_defs store1_eq str_int_small)
  note t1 = on_get_by_id_status
    [of "Some ''1''" "''1''" _ "store_env no_json" resp0 s1, OF refl _ refl]
  note t2 = on_get_by_id_status
    [of "Some ''9''" "''9''" _ "store_env no_json" resp0 s1, OF refl _ refl]
  note t3 = on_get_by_id_status
    [of "Some ''1''" "''1''" _ "db_down_env no_json" resp0 s1, OF refl _ refl]
  show ?thesis
    using t1 t2 t3 b c d s1_session [of no_json] db_down_session [of no_json s1]
      store_env_close [of no_json 1]
    by fastforce
qed

section \<open>GET /task\<close>

text \<open>
  Claim C4. For a GET /task request without a task id the handler sets the body to the
  serialized list that \<^verbatim>\<open>Task.find_all\<close> gave, with status 200 when the list has at least
  one Task and 404 when it is empty, and status 500 when anything in the \<^verbatim>\<open>try\<close> block
  raises: the session, the lookup or the serialization.
\<close>

theorem on_get_all_status:
  assumes "\<not> truthy_id task_id"
    and "out = on_get env resp task_id s"
  shows
    "(\<forall>sess w1 ts w2 b.
        create_db_session env (world s) = (Inr sess, w1) \<and>
        find_all env sess w1 = (Inr ts, w2) \<and> serialize_tasks env ts = Inr b \<longrightarrow>
        body (response out) = Some b \<and>
        status (response out) = (if ts = [] then HTTP_404 else HTTP_200)) \<and>
     (\<forall>e w1. create_db_session env (world s) = (Inl e, w1) \<longrightarrow>
        status (response out) = HTTP_500) \<and>
     (\<forall>sess w1 e w2.
        create_db_session env (world s) = (Inr sess, w1) \<and>
        find_all env sess w1 = (Inl e, w2) \<longrightarrow>
        status (response out) = HTTP_500) \<and>
     (\<forall>sess w1 ts w2 e.
        create_db_session env (world s) = (Inr sess, w1) \<and>
        find_all env sess w1 = (Inr ts, w2) \<and> serialize_tasks env ts = Inl e \<longrightarrow>
        status (response out) = HTTP_500) \<and>
     (\<forall>sess w1.
        create_db_session env (world s) = (Inr sess, w1) \<and>
        (\<forall>w. fst (close_db_session env sess w) = Inr ()) \<longrightarrow>
        raised out = None)"
  unfolding assms(2) on_get_response using assms(1) on_get_returns [of env s]
  by (auto simp: on_get_try_def except_500_def invoke_def Let_def)

text \<open>
  GET /task gives 404 on the empty store, 200 and a non-empty body on the store that
  holds Task 1, and 500 with the database down.
\<close>

theorem on_get_all_status_witness:
  "status (response (on_get (store_env no_json) resp0 None s0)) = HTTP_404 \<and>
   status (response (on_get (store_env no_json) resp0 None s1)) = HTTP_200 \<and>
   body (response (on_get (store_env no_json) resp0 None s1)) = Some ''task 1; '' \<and>
   raised (on_get (store_env no_json) resp0 None s1) = None \<and>
   status (response (on_get (db_down_env no_json) resp0 None s1)) = HTTP_500"
proof -
  have a: "find_all (store_env no_json) 0 (empty_store\<lparr>sessions_made := 1, open_sessions := [0]\<rparr>)
      = (Inr [], empty_store\<lparr>sessions_made := 1, open_sessions := [0]\<rparr>)"
    by (simp add: store_env_defs empty_store_def)
  have b: "serialize_tasks (store_env no_json) [] = Inr []"
    by (simp add: store_env_defs)
  have c: "find_all (store_env no_json) 1 (store1\<lparr>sessions_made := 2, open_sessions := [1]\<rparr>)
      = (Inr [\<lparr>t_id = 1, t_repository = PStr ''repo'', t_name = PStr ''build''\<rparr>],
         store1\<lparr>sessions_made := 2, open_sessions := [1]\<rparr>)"
    by (simp add: store_env_defs store1_eq)
  have d: "serialize_tasks (store_env no_json)
             [\<lparr>t_id = 1, t_repository = PStr ''repo'', t_name = PStr ''build''\<rparr>]
      = Inr ''task 1; ''"
    by (simp add: store_env_defs str_int_small)
  note t1 = on_get_all_status [of None _ "store_env no_json" resp0 s0, OF _ refl]
  note t2 = on_get_all_status [of None _ "store_env no_json" resp0 s1, OF _ refl]
  note t3 = on_get_all_status [of None _ "db_down_env no_json" resp0 s1, OF _ refl]
  show ?thesis
    using t1 t2 t3 a b c d s0_session [of no_json] s1_session [of no_json]
      db_down_session [of no_json s1] store_env_close [of no_json 1]
    by fastforce
qed

section \<open>POST /task\<close>

text \<open>
  Claim C1. For a POST /task request without a task id the handler leaves status 201 when
  \<^verbatim>\<open>Task.create_unique_task\<close> reports a new Task, status 409 when it reports an existing
  one, and status 500 when the session or the creation raises, whatever the fields read
  from the body were. It returns whenever the session was acquired and closing it does not
  raise.
\<close>

theorem on_post_create_status:
  assumes "\<not> truthy_id task_id"
    and "parsed_json = raw_to_dict env (read_stream env req)"
    and "repository = dict_get parsed_json ''repository'' PNone"
    and "name = dict_get parsed_json ''name'' PNone"
    and "out = on_post env self req resp task_id s"
  shows
    "(\<forall>sess w1 t w2.
        create_db_session env (world s) = (Inr sess, w1) \<and>
        create_unique_task env sess repository name w1 = (Inr (t, True), w2) \<longrightarrow>
        status (response out) = HTTP_201) \<and>
     (\<forall>sess w1 t w2.
        create_db_session env (world s) = (Inr sess, w1) \<and>
        create_unique_task env sess repository name w1 = (Inr (t, False), w2) \<longrightarrow>
        status (response out) = HTTP_409) \<and>
     (\<forall>e w1. create_db_session env (world s) = (Inl e, w1) \<longrightarrow>
        status (response out) = HTTP_500) \<and>
     (\<forall>sess w1 e w2.
        create_db_session env (world s) = (Inr sess, w1) \<and>
        create_unique_task env sess repository name w1 = (Inl e, w2) \<longrightarrow>
        status (response out) = HTTP_500) \<and>
     (\<forall>sess w1.
        create_db_session env (world s) = (Inr sess, w1) \<and>
        (\<forall>w. fst (close_db_session env sess w) = Inr ()) \<longrightarrow>
        raised out = None)"
proof -
  have eq: "out = create_new_task env resp repository name s"
    using assms by (simp add: on_post_without_id)
  show ?thesis
    unfolding eq create_new_task_response
    using create_new_task_returns [of env s]
    by (auto simp: create_new_task_try_def except_500_def invoke_def Let_def)
qed

text \<open>
  POST /task for (\<open>repo\<close>, \<open>build\<close>) gives 201 on the empty store and 409 on the store
  that holds that Task; a POST /task without a body, whose missing fields the store
  rejects, gives 500, and so does a POST /task with the database down.
\<close>

theorem on_post_create_status_witness:
  "status (response
     (on_post (store_env (json_task ''repo'' ''build'')) self0 req_empty resp0 None s0))
     = HTTP_201 \<and>
   raised (on_post (store_env (json_task ''repo'' ''build'')) self0 req_empty resp0 None s0)
     = None \<and>
   status (response
     (on_post (store_env (json_task ''repo'' ''build'')) self0 req_empty resp0 None s1))
     = HTTP_409 \<and>
   status (response (on_post (store_env no_json) self0 req_empty resp0 None s0)) = HTTP_500 \<and>
   status (response
     (on_post (db_down_env (json_task ''repo'' ''build'')) self0 req_empty resp0 None s0))
     = HTTP_500"
proof -
  let ?jl = "json_task ''repo'' ''build''"
  let ?t = "\<lparr>t_id = 1, t_repository = PStr ''repo'', t_name = PStr ''build''\<rparr>"
  have a: "create_unique_task (store_env ?jl) 0 (PStr ''repo'') (PStr ''build'')
             (empty_store\<lparr>sessions_made := 1, open_sessions := [0]\<rparr>)
      = (Inr (?t, True), empty_store\<lparr>sessions_made := 1, open_sessions := [0], rows := [?t]\<rparr>)"
    by (simp add: store_env_defs empty_store_def next_id_Nil Let_def)
  have b: "create_unique_task (store_env ?jl) 1 (PStr ''repo'') (PStr ''build'')
             (store1\<lparr>sessions_made := 2, open_sessions := [1]\<rparr>)
      = (Inr (?t, False), store1\<lparr>sessions_made := 2, open_sessions := [1]\<rparr>)"
    by (simp add: store_env_defs store1_eq task_key_def)
  have c: "create_unique_task (store_env no_json) 0 PNone PNone
             (empty_store\<lparr>sessions_made := 1, open_sessions := [0]\<rparr>)
      = (Inl (CollaboratorError ''IntegrityError''),
         empty_store\<lparr>sessions_made := 1, open_sessions := [0]\<rparr>)"
    by (simp add: store_env_defs)
  have p: "dict_get (raw_to_dict (store_env ?jl) (read_stream (store_env ?jl) req_empty))
             ''repository'' PNone = PStr ''repo''"
    "dict_get (raw_to_dict (store_env ?jl) (read_stream (store_env ?jl) req_empty))
             ''name'' PNone = PStr ''build''"
    "dict_get (raw_to_dict (store_env no_json) (read_stream (store_env no_json) req_empty))
             ''repository'' PNone = PNone"
    "dict_get (raw_to_dict (store_env no_json) (read_stream (store_env no_json) req_empty))
             ''name'' PNone = PNone"
    by (simp_all add: store_env_def json_task_def no_json_def dict_get_def)
  have nt: "\<not> truthy_id None"
    by simp
  note t1 = on_post_create_status
    [of None _ "store_env ?jl" req_empty _ _ _ self0 resp0 s0, OF nt refl refl refl refl,
     unfolded p]
  note t2 = on_post_create_status
    [of None _ "store_env ?jl" req_empty _ _ _ self0 resp0 s1, OF nt refl refl refl refl,
     unfolded p]
  note t3 = on_post_create_status
    [of None _ "store_env no_json" req_empty _ _ _ self0 resp0 s0, OF nt refl refl refl refl,
     unfolded p]
  note t4 = on_post_create_status
    [of None _ "db_down_env ?jl" req_empty _ _ _ self0 resp0 s0, OF nt refl refl refl refl]
  have c1: "status (response (on_post (store_env ?jl) self0 req_empty resp0 None s0)) = HTTP_201"
    using t1 a s0_session [of ?jl] by blast
  have c2: "raised (on_post (store_env ?jl) self0 req_empty resp0 None s0) = None"
    using t1 s0_session [of ?jl] store_env_close [of ?jl 0] by blast
  have c3: "status (response (on_post (store_env ?jl) self0 req_empty resp0 None s1)) = HTTP_409"
    using t2 b s1_session [of ?jl] by blast
  have c4: "status (response (on_post (store_env no_json) self0 req_empty resp0 None s0)) = HTTP_500"
    using t3 c s0_session [of no_json] by blast
  have c5: "status (response (on_post (db_down_env ?jl) self0 req_empty resp0 None s0)) = HTTP_500"
    using t4 db_down_session [of ?jl s0] by blast
  show ?thesis
    using c1 c2 c3 c4 c5 by simp
qed

text \<open>
  Claim C7, as the code has it. On the POST /task path where \<^verbatim>\<open>create_unique_task\<close>
  returns a Task (new, 201, or existing, 409), the handler sets the location to
  \<^verbatim>\<open>'/%s/task/%s/' % (resp, task.id)\<close>: the text of the response object itself is the
  first path segment, and the id of the Task is the last one.
\<close>

theorem on_post_create_location:
  assumes "\<not> truthy_id task_id"
    and "parsed_json = raw_to_dict env (read_stream env req)"
    and "repository = dict_get parsed_json ''repository'' PNone"
    and "name = dict_get parsed_json ''name'' PNone"
    and "create_db_session env (world s) = (Inr sess, w1)"
    and "create_unique_task env sess repository name w1 = (Inr (t, created), w2)"
  shows "location (response (on_post env self req resp task_id s)) =
           Some (''/'' @ resp_str env (resp\<lparr>status := (if created then HTTP_201 else HTTP_409)\<rparr>)
                 @ ''/task/'' @ id_str env t @ ''/'')"
proof -
  have eq: "on_post env self req resp task_id s = create_new_task env resp repository name s"
    using assms by (simp add: on_post_without_id)
  show ?thesis
    unfolding eq create_new_task_response using assms(5,6)
    by (simp add: create_new_task_try_def except_500_def invoke_def Let_def)
qed

text \<open>
  The first POST /task on the empty store creates the Task with id 1, and the location
  ends in that id.
\<close>

theorem on_post_create_location_witness:
  "location (response
     (on_post (store_env (json_task ''repo'' ''build'')) self0 req_empty resp0 None s0))
   = Some (''/'' @ ''<falcon.response.Response object>'' @ ''/task/'' @ str_int 1 @ ''/'')"
proof -
  let ?jl = "json_task ''repo'' ''build''"
  let ?t = "\<lparr>t_id = 1, t_repository = PStr ''repo'', t_name = PStr ''build''\<rparr>"
  have a: "create_unique_task (store_env ?jl) 0
             (dict_get (raw_to_dict (store_env ?jl) (read_stream (store_env ?jl) req_empty))
                ''repository'' PNone)
             (dict_get (raw_to_dict (store_env ?jl) (read_stream (store_env ?jl) req_empty))
                ''name'' PNone)
             (empty_store\<lparr>sessions_made := 1, open_sessions := [0]\<rparr>)
      = (Inr (?t, True), empty_store\<lparr>sessions_made := 1, open_sessions := [0], rows := [?t]\<rparr>)"
    by (simp add: store_env_defs empty_store_def next_id_Nil json_task_def dict_get_def Let_def)
  have "location (response (on_post (store_env ?jl) self0 req_empty resp0 None s0)) =
          Some (''/'' @ resp_str (store_env ?jl) (resp0\<lparr>status := (if True then HTTP_201 else HTTP_409)\<rparr>)
                @ ''/task/'' @ id_str (store_env ?jl) ?t @ ''/'')"
    using on_post_create_location
      [of None _ "store_env ?jl" req_empty _ _ s0 0 _ ?t True _ self0 resp0,
       OF _ refl refl refl s0_session a]
    by simp
  then show ?thesis
    by (simp add: store_env_def)
qed

text \<open>
  The locations of two successive creations: the Task with id 1 gets a location that
  ends in \<open>/task/1/\<close>, the Task with id 2 one that ends in \<open>/task/2/\<close>. The id is
  part of the value.
\<close>

theorem location_holds_task_id:
  "location (response
     (on_post (store_env (json_task ''repo'' ''build'')) self0 req_empty resp0 None s0))
     = Some ''/<falcon.response.Response object>/task/1/'' \<and>
   map t_id (rows (world (final
     (on_post (store_env (json_task ''repo'' ''build'')) self0 req_empty resp0 None s0)))) = [1] \<and>
   location (response
     (on_post (store_env (json_task ''repo'' ''test'')) self0 req_empty resp0 None s1))
     = Some ''/<falcon.response.Response object>/task/2/'' \<and>
   map t_id (rows (world (final
     (on_post (store_env (json_task ''repo'' ''test'')) self0 req_empty resp0 None s1)))) = [1, 2]"
  by (simp add: post_first post_other)

section \<open>The session when its acquisition fails\<close>

text \<open>
  Claim C8, at the failing input. Both \<^verbatim>\<open>on_get\<close> and \<^verbatim>\<open>_create_new_task\<close> bind
  \<^verbatim>\<open>session\<close> inside the \<^verbatim>\<open>try\<close> block. When \<^verbatim>\<open>utils.create_db_session\<close> raises, the
  \<^verbatim>\<open>finally\<close> clause reads the unbound variable: the handler ends by
  \<^verbatim>\<open>UnboundLocalError\<close>, and \<^verbatim>\<open>close_db_session\<close> is never called.
\<close>

theorem cleanup_fails_when_acquisition_raises:
  assumes "create_db_session env (world s) = (Inl e, w1)"
  shows "raised (on_get env resp task_id s) = Some (UnboundLocalError ''session'') \<and>
         new_events s (on_get env resp task_id s) = [(CreateDbSession, Some e)] \<and>
         raised (create_new_task env resp repository name s)
           = Some (UnboundLocalError ''session'') \<and>
         new_events s (create_new_task env resp repository name s)
           = [(CreateDbSession, Some e)]"
  using assms
  by (simp add: on_get_def on_get_try_def create_new_task_def create_new_task_try_def
      finally_close_def invoke_def new_events_def)

text \<open>GET /task and POST /task with the database down.\<close>

theorem cleanup_fails_when_acquisition_raises_witness:
  "raised (on_get (db_down_env no_json) resp0 None s0) = Some (UnboundLocalError ''session'') \<and>
   new_events s0 (on_get (db_down_env no_json) resp0 None s0)
     = [(CreateDbSession, Some (CollaboratorError ''OperationalError''))] \<and>
   raised (create_new_task (db_down_env no_json) resp0 (PStr ''repo'') (PStr ''build'') s0)
     = Some (UnboundLocalError ''session'')"
  using cleanup_fails_when_acquisition_raises
    [OF db_down_session [of no_json s0], of resp0 None "PStr ''repo''" "PStr ''build''"]
  by simp

section \<open>The configuration of a resource\<close>

text \<open>
  Claim C9, as the code has it. \<^verbatim>\<open>self.redis_config = config.DEFAULT\<close> copies nothing:
  the configuration of every resource is the global default dict itself.
  \<^verbatim>\<open>__init__\<close> leaves that dict as it is, because it calls \<^verbatim>\<open>_create_queue\<close> without
  keyword overrides. A call of \<^verbatim>\<open>_create_queue\<close> with overrides writes them into that
  one dict, so the global default, and with it the configuration of every resource,
  holds the overrides afterwards. The queue that the call returns is connected with the
  updated values.
\<close>

theorem redis_config_is_shared:
  "redis_config (fst (TaskResource_init h)) = config_DEFAULT \<and>
   snd (TaskResource_init h) = h \<and>
   snd (create_queue (redis_config (fst (TaskResource_init h))) name kwargs h')
     = h'(config_DEFAULT := h' config_DEFAULT ++ kwargs) \<and>
   connection (fst (create_queue (redis_config (fst (TaskResource_init h))) name kwargs h'))
     = h' config_DEFAULT ++ kwargs"
  by (simp add: TaskResource_init_def create_queue_def Let_def)

lemma heap_a_eq: "heap_a = heap0"
  by (simp add: heap_a_def TaskResource_init_def create_queue_def Let_def)

lemma heap_b_eq: "heap_b = heap0"
  by (simp add: heap_b_def heap_a_eq TaskResource_init_def create_queue_def Let_def)

text \<open>
  A queue made for the first resource with port 6380: the port of the global default and
  the port in the configuration of the second resource were 6379 before and are 6380
  after.
\<close>

theorem override_reaches_global_and_other_instance:
  "heap_b config_DEFAULT ''port'' = Some (PInt 6379) \<and>
   heap_c config_DEFAULT ''port'' = Some (PInt 6380) \<and>
   heap_b (redis_config res_b) ''port'' = Some (PInt 6379) \<and>
   heap_c (redis_config res_b) ''port'' = Some (PInt 6380)"
  by (simp add: heap_c_def heap_b_eq heap_a_eq res_a_def res_b_def heap0_def
      TaskResource_init_def create_queue_def Let_def)

section \<open>Uniqueness of (repository, name)\<close>

lemma find_key_None: "find (\<lambda>t. task_key t = k) rs = None \<longleftrightarrow> k \<notin> set (map task_key rs)"
  by (auto simp: find_None_iff)

lemma find_key_Some:
  "distinct (map task_key rs) \<Longrightarrow> t \<in> set rs \<Longrightarrow>
   find (\<lambda>t'. task_key t' = task_key t) rs = Some t"
  by (induction rs) (auto simp: rev_image_eqI)

lemma create_unique_rows_ok:
  "rows_ok (rows w) \<Longrightarrow> rows_ok (rows (snd (create_unique_task_model sess r n w)))"
proof (cases "find (\<lambda>t. task_key t = (r, n)) (rows w)")
  case None
  assume ok: "rows_ok (rows w)"
  from None have "(r, n) \<notin> set (map task_key (rows w))"
    by (simp add: find_key_None)
  with None ok show ?thesis
    by (auto simp: create_unique_task_model_def rows_ok_def Let_def task_key_def)
next
  case (Some t)
  assume "rows_ok (rows w)"
  with Some show ?thesis
    by (simp add: create_unique_task_model_def)
qed

lemma create_unique_existing:
  assumes "rows_ok (rows w)" and "t \<in> set (rows w)"
  shows "create_unique_task_model sess (t_repository t) (t_name t) w = (Inr (t, False), w)"
proof -
  have "find (\<lambda>t'. task_key t' = (t_repository t, t_name t)) (rows w) = Some t"
    using find_key_Some [of "rows w" t] assms by (simp add: rows_ok_def task_key_def)
  moreover have "t_repository t \<noteq> PNone \<and> t_name t \<noteq> PNone"
    using assms by (auto simp: rows_ok_def list_all_iff)
  ultimately show ?thesis
    by (simp add: create_unique_task_model_def)
qed

lemma enqueue_loop_rows:
  "rows (world (snd (enqueue_loop (store_env jl) qu tid opn idxs s))) = rows (world s)"
  by (induction idxs arbitrary: s) (auto simp: invoke_def store_env_defs)

lemma execute_task_rows:
  "rows (world (final (execute_task (store_env jl) self resp tid tms opn s))) = rows (world s)"
proof (cases "py_range tms")
  case (Inl e)
  then show ?thesis by (simp add: execute_task_def)
next
  case (Inr idxs)
  obtain r s' where loop: "enqueue_loop (store_env jl) (q self) tid opn idxs s = (r, s')"
    by (cases "enqueue_loop (store_env jl) (q self) tid opn idxs s") auto
  have "rows (world s') = rows (world s)"
    using enqueue_loop_rows [of jl "q self" tid opn idxs s] loop by simp
  with Inr loop show ?thesis
    by (simp add: execute_task_def)
qed

lemma create_new_task_rows:
  "rows (world (final (create_new_task (store_env jl) resp r n \<lparr>world = w, trace = tr\<rparr>)))
     = rows (snd (create_unique_task_model (sessions_made w) r n w))"
  by (auto simp: create_new_task_def create_new_task_try_def finally_close_def invoke_def
      store_env_defs Let_def split: option.splits)

lemma on_get_rows:
  "rows (world (final (on_get (store_env jl) resp task_id \<lparr>world = w, trace = tr\<rparr>))) = rows w"
  by (auto simp: on_get_def on_get_try_def finally_close_def invoke_def
      store_env_defs Let_def split: option.splits)

lemma on_post_rows_ok:
  "rows_ok (rows w) \<Longrightarrow>
   rows_ok (rows (world (final (on_post (store_env jl) self req resp task_id \<lparr>world = w, trace = tr\<rparr>))))"
proof (cases "truthy_id task_id")
  case True
  assume "rows_ok (rows w)"
  with True show ?thesis
    by (cases task_id) (simp_all add: on_post_with_id execute_task_rows)
next
  case False
  assume "rows_ok (rows w)"
  with False show ?thesis
    using create_unique_rows_ok [of w]
    by (simp add: on_post_without_id create_new_task_rows)
qed

lemma reachable_rows_ok: "reachable w \<Longrightarrow> rows_ok (rows w)"
proof (induction rule: reachable.induct)
  case reachable_empty
  then show ?case by (simp add: rows_ok_def empty_store_def)
next
  case (reachable_get w w' json_loads resp task_id tr)
  then show ?case by (simp add: on_get_rows)
next
  case (reachable_post w w' json_loads self req resp task_id tr)
  then show ?case by (simp add: on_post_rows_ok)
qed


lemma create_new_task_existing:
  assumes "rows_ok (rows w)" and "t \<in> set (rows w)"
  shows "status (response (create_new_task (store_env jl) resp (t_repository t) (t_name t)
           \<lparr>world = w, trace = tr\<rparr>)) = HTTP_409"
proof -
  let ?w1 = "w\<lparr>sessions_made := Suc (sessions_made w),
               open_sessions := sessions_made w # open_sessions w\<rparr>"
  have "create_unique_task_model (sessions_made w) (t_repository t) (t_name t) ?w1
          = (Inr (t, False), ?w1)"
    using create_unique_existing [of ?w1 t] assms by simp
  then show ?thesis
    by (simp add: create_new_task_response create_new_task_try_def invoke_def except_500_def
        store_env_def create_db_session_model_def Let_def)
qed

text \<open>
  Claim C3. In every store that requests can produce, no two Task rows share the same
  (repository, name) pair. For a pair that is stored, create-if-absent returns the
  existing Task and leaves the store as it is, and a repeated POST /task with that pair
  leaves the rows as they are and sets status 409.
\<close>

theorem unique_repository_name:
  assumes "reachable w"
  shows "distinct (map task_key (rows w)) \<and>
    (\<forall>t\<in>set (rows w). \<forall>sess.
       create_unique_task_model sess (t_repository t) (t_name t) w = (Inr (t, False), w)) \<and>
    (\<forall>t\<in>set (rows w). \<forall>jl self req resp task_id tr.
       \<not> truthy_id task_id \<and>
       jl (stream req) ''repository'' = Some (t_repository t) \<and>
       jl (stream req) ''name'' = Some (t_name t) \<longrightarrow>
       rows (world (final (on_post (store_env jl) self req resp task_id
                             \<lparr>world = w, trace = tr\<rparr>))) = rows w \<and>
       status (response (on_post (store_env jl) self req resp task_id
                           \<lparr>world = w, trace = tr\<rparr>)) = HTTP_409)"
proof -
  have ok: "rows_ok (rows w)"
    using assms by (rule reachable_rows_ok)
  have a: "distinct (map task_key (rows w))"
    using ok by (simp add: rows_ok_def)
  have b: "create_unique_task_model sess (t_repository t) (t_name t) w = (Inr (t, False), w)"
    if "t \<in> set (rows w)" for t sess
    using create_unique_existing [OF ok that] .
  have c: "rows (world (final (on_post (store_env jl) self req resp task_id
                                 \<lparr>world = w, trace = tr\<rparr>))) = rows w \<and>
           status (response (on_post (store_env jl) self req resp task_id
                               \<lparr>world = w, trace = tr\<rparr>)) = HTTP_409"
    if t: "t \<in> set (rows w)" and nid: "\<not> truthy_id task_id"
      and r: "jl (stream req) ''repository'' = Some (t_repository t)"
      and n: "jl (stream req) ''name'' = Some (t_name t)"
    for t jl self req resp task_id tr
  proof -
    have eq: "on_post (store_env jl) self req resp task_id \<lparr>world = w, trace = tr\<rparr>
        = create_new_task (store_env jl) resp (t_repository t) (t_name t)
            \<lparr>world = w, trace = tr\<rparr>"
      using nid r n by (simp add: on_post_without_id store_env_def dict_get_def)
    show ?thesis
      unfolding eq
      using create_new_task_existing [OF ok t] b [OF t]
      by (simp add: create_new_task_rows)
  qed
  show ?thesis
    using a b c by blast
qed


text \<open>
  The store after the first POST /task is produced by a request; a second POST /task for
  the same pair finds the Task with id 1 and adds no row.
\<close>

theorem unique_repository_name_witness:
  "reachable store1 \<and>
   rows store1 = [\<lparr>t_id = 1, t_repository = PStr ''repo'', t_name = PStr ''build''\<rparr>] \<and>
   distinct (map task_key (rows store1)) \<and>
   create_unique_task_model 1 (PStr ''repo'') (PStr ''build'') store1
     = (Inr (\<lparr>t_id = 1, t_repository = PStr ''repo'', t_name = PStr ''build''\<rparr>, False), store1) \<and>
   rows (world (final
     (on_post (store_env (json_task ''repo'' ''build'')) self0 req_empty resp0 None s1)))
     = rows store1 \<and>
   status (response
     (on_post (store_env (json_task ''repo'' ''build'')) self0 req_empty resp0 None s1))
     = HTTP_409"
proof -
  let ?t = "\<lparr>t_id = 1, t_repository = PStr ''repo'', t_name = PStr ''build''\<rparr>"
  let ?jl = "json_task ''repo'' ''build''"
  have r: "reachable store1"
    by (rule reachable_post [OF reachable_empty, of _ ?jl self0 req_empty resp0 None "[]"])
      (simp add: store1_def s0_def)
  have rs: "rows store1 = [?t]"
    by (simp add: store1_eq)
  have mem: "?t \<in> set (rows store1)"
    by (simp add: rs)
  note t = unique_repository_name [OF r]
  have a: "distinct (map task_key (rows store1))"
    using t by blast
  have b: "create_unique_task_model 1 (PStr ''repo'') (PStr ''build'') store1
             = (Inr (?t, False), store1)"
    using t mem by fastforce
  have c: "rows (world (final (on_post (store_env ?jl) self0 req_empty resp0 None
                                 \<lparr>world = store1, trace = []\<rparr>))) = rows store1 \<and>
           status (response (on_post (store_env ?jl) self0 req_empty resp0 None
                               \<lparr>world = store1, trace = []\<rparr>)) = HTTP_409"
  proof -
    have h: "\<not> truthy_id None \<and>
          ?jl (stream req_empty) ''repository'' = Some (t_repository ?t) \<and>
          ?jl (stream req_empty) ''name'' = Some (t_name ?t)"
      by (simp add: json_task_def)
    from t have "\<forall>t\<in>set (rows store1). \<forall>jl self req resp task_id tr.
       \<not> truthy_id task_id \<and>
       jl (stream req) ''repository'' = Some (t_repository t) \<and>
       jl (stream req) ''name'' = Some (t_name t) \<longrightarrow>
       rows (world (final (on_post (store_env jl) self req resp task_id
                             \<lparr>world = store1, trace = tr\<rparr>))) = rows store1 \<and>
       status (response (on_post (store_env jl) self req resp task_id
                           \<lparr>world = store1, trace = tr\<rparr>)) = HTTP_409"
      by blast
    from this [THEN bspec, OF mem, THEN spec, of ?jl, THEN spec, of self0, THEN spec,
        of req_empty, THEN spec, of resp0, THEN spec, of None, THEN spec, of "[]"] h
    show ?thesis
      by (rule mp)
  qed
  show ?thesis
    using r rs a b c by (simp add: s1_def)
qed

section \<open>Further properties of the handlers\<close>

lemma finally_close_events:
  "\<exists>r. trace (final (finally_close env (Some sess) resp s)) = trace s @ [(CloseDbSession sess, r)]"
  by (auto simp: finally_close_def invoke_def split: prod.splits sum.splits)

lemma on_get_try_events:
  assumes "create_db_session env (world s) = (Inr sess, w1)"
  shows "\<exists>mid. trace (snd (snd (snd (on_get_try env resp task_id s))))
                 = trace s @ (CreateDbSession, None) # mid \<and>
               filter session_call (map fst mid) = []"
  using assms
  by (auto simp: on_get_try_def invoke_def Let_def split: prod.splits sum.splits option.splits)

lemma create_new_task_try_events:
  assumes "create_db_session env (world s) = (Inr sess, w1)"
  shows "\<exists>mid. trace (snd (snd (snd (create_new_task_try env resp repository name s))))
                 = trace s @ (CreateDbSession, None) # mid \<and>
               filter session_call (map fst mid) = []"
  using assms
  by (auto simp: create_new_task_try_def invoke_def Let_def split: prod.splits sum.splits)

lemma closed_after_try:
  assumes tr: "trace s' = trace s @ (CreateDbSession, None) # mid"
    and mid: "filter session_call (map fst mid) = []"
  shows "filter session_call (map fst
           (drop (length (trace s)) (trace (final (finally_close env (Some sess) resp' s')))))
           = [CreateDbSession, CloseDbSession sess] \<and>
         fst (last (drop (length (trace s))
           (trace (final (finally_close env (Some sess) resp' s'))))) = CloseDbSession sess"
proof -
  obtain r where "trace (final (finally_close env (Some sess) resp' s'))
      = trace s' @ [(CloseDbSession sess, r)]"
    using finally_close_events [of env sess resp' s'] by blast
  with tr mid show ?thesis
    by simp
qed

text \<open>
  When \<^verbatim>\<open>utils.create_db_session\<close> returns a session, \<^verbatim>\<open>on_get\<close> and
  \<^verbatim>\<open>_create_new_task\<close> acquire no other session and call \<^verbatim>\<open>utils.close_db_session\<close>
  exactly once, on that session, as their last call, whatever the calls in between
  returned or raised.
\<close>

theorem session_closed_once_when_acquired:
  assumes "create_db_session env (world s) = (Inr sess, w1)"
  shows "filter session_call (map fst (new_events s (on_get env resp task_id s)))
           = [CreateDbSession, CloseDbSession sess] \<and>
         fst (last (new_events s (on_get env resp task_id s))) = CloseDbSession sess \<and>
         filter session_call (map fst (new_events s (create_new_task env resp repository name s)))
           = [CreateDbSession, CloseDbSession sess] \<and>
         fst (last (new_events s (create_new_task env resp repository name s)))
           = CloseDbSession sess"
proof -
  obtain exc resp' s' where g: "on_get_try env resp task_id s = (exc, Some sess, resp', s')"
    using on_get_try_session [OF assms, of resp task_id]
    by (cases "on_get_try env resp task_id s") auto
  obtain mid where mid: "trace s' = trace s @ (CreateDbSession, None) # mid"
    "filter session_call (map fst mid) = []"
    using on_get_try_events [OF assms, of resp task_id] g by auto
  obtain exc2 resp2 s2 where
    c: "create_new_task_try env resp repository name s = (exc2, Some sess, resp2, s2)"
    using create_new_task_try_session [OF assms, of resp repository name]
    by (cases "create_new_task_try env resp repository name s") auto
  obtain mid2 where mid2: "trace s2 = trace s @ (CreateDbSession, None) # mid2"
    "filter session_call (map fst mid2) = []"
    using create_new_task_try_events [OF assms, of resp repository name] c by auto
  show ?thesis
    using closed_after_try [OF mid, of env sess "except_500 exc resp'"]
      closed_after_try [OF mid2, of env sess "except_500 exc2 resp2"]
    by (simp add: new_events_def on_get_def create_new_task_def g c)
qed

text \<open>GET /task/1 on the store that holds Task 1 leaves no session open.\<close>

theorem session_closed_once_when_acquired_witness:
  "filter session_call (map fst (new_events s1 (on_get (store_env no_json) resp0 (Some ''1'') s1)))
     = [CreateDbSession, CloseDbSession 1] \<and>
   open_sessions (world (final (on_get (store_env no_json) resp0 (Some ''1'') s1))) = []"
proof -
  have "open_sessions (world (final (on_get (store_env no_json) resp0 (Some ''1'') s1))) = []"
    by (simp add: handler_defs store_env_defs s1_def store1_eq str_int_small)
  then show ?thesis
    using session_closed_once_when_acquired [OF s1_session [of no_json], of resp0 "Some ''1''"]
    by simp
qed

text \<open>
  When the body of a POST /task/{id} request gives \<open>times\<close> as a value that is neither
  an integer nor a boolean, \<^verbatim>\<open>range(0, times)\<close> raises \<^verbatim>\<open>TypeError\<close>: the handler ends
  by that exception with status 200 set and without a call of \<^verbatim>\<open>enqueue\<close>.
\<close>

theorem on_post_times_not_integer:
  assumes "task_id = Some tid" and "tid \<noteq> []"
    and "raw_to_dict env (read_stream env req) ''times'' = Some v"
    and "v = PNone \<or> v = PStr x \<or> v = PFloat x \<or> v = PList xs \<or> v = PDict kvs"
  shows "raised (on_post env self req resp task_id s) = Some TypeError \<and>
         new_events s (on_post env self req resp task_id s) = [] \<and>
         status (response (on_post env self req resp task_id s)) = HTTP_200"
  using assms
  by (auto simp: on_post_with_id execute_task_def py_range_def dict_get_def new_events_def)

text \<open>POST /task/7 with \<open>times\<close> given as the string \<open>3\<close>.\<close>

theorem on_post_times_not_integer_witness:
  "raised (on_post (store_env (json_times_text ''3'')) self0 req_empty resp0 (Some ''7'') s0)
     = Some TypeError \<and>
   queued (world (final
     (on_post (store_env (json_times_text ''3'')) self0 req_empty resp0 (Some ''7'') s0))) = []"
proof -
  have "final (on_post (store_env (json_times_text ''3'')) self0 req_empty resp0 (Some ''7'') s0) = s0"
    by (simp add: on_post_with_id execute_task_def py_range_def dict_get_def store_env_def
        json_times_text_def)
  then show ?thesis
    using on_post_times_not_integer [of "Some ''7''" "''7''" "store_env (json_times_text ''3'')"
        req_empty "PStr ''3''" "''3''" "[]" "[]" self0 resp0 s0]
    by (simp add: store_env_def json_times_text_def s0_def empty_store_def)
qed

end
